theory Spec2Isabelle
  imports Complex_Main "HOL-Library.Char_ord" "HOL-Library.List_Lexorder" "HOL-Library.AList"
begin

section \<open>The GTP client of minigo (cc/gtp_client.cc)\<close>

text \<open>
  The client reads one command line at a time, splits it into tokens, strips an optional
  numeric tag, looks the command up in its table of handlers and runs the handler on the
  player. Between commands it ponders. This theory embeds the command interpreter, the
  fifteen handlers and the ponder scheduler, and proves properties of them.

  Conventions of the embedding.
  \<^item> A member function that mutates the client takes the client record and returns the
    new one.
  \<^item> Reading past the end of a vector or string view, and a failed \<open>MG_CHECK\<close>, are
    values of the type \<open>fault\<close>: a function in which either can happen returns
    \<open>fault + 'a\<close>.
  \<^item> The field \<open>done\<close> of a response is \<open>done_flag\<close> here.
  \<^item> \<open>int\<close> fields of the source are HOL integers. Signed overflow is undefined in C++;
    the model adds without a bound.
  \<^item> Logging (\<open>MG_LOG\<close>) is left out: it changes no state of the client.
  \<^item> What the client calls but does not define (the player, the game, the SGF parser,
    the file system, the clock, the float parsers) is a field of the record \<open>env\<close>.
\<close>

subsection \<open>Strings\<close>

text \<open>\<open>absl::ascii_isspace\<close>: space, tab, line feed, vertical tab, form feed, carriage return.\<close>

definition ascii_isspace :: "char \<Rightarrow> bool" where
  "ascii_isspace ch \<longleftrightarrow>
     ch = CHR '' '' \<or> ch = CHR 0x09 \<or> ch = CHR 0x0A \<or> ch = CHR 0x0B \<or> ch = CHR 0x0C \<or> ch = CHR 0x0D"

text \<open>The delimiter \<open>absl::ByAnyChar(" \t\r\n")\<close> of \<open>HandleCmd\<close>.\<close>

definition is_delim :: "char \<Rightarrow> bool" where
  "is_delim ch \<longleftrightarrow> ch = CHR '' '' \<or> ch = CHR 0x09 \<or> ch = CHR 0x0D \<or> ch = CHR 0x0A"

text \<open>
  \<open>absl::StrSplit(text, ByAnyChar(...))\<close> without a predicate: the pieces between
  delimiters, empty pieces included; the text with no delimiter is one piece.
  \<open>split_acc cur text\<close> holds the piece being read in \<open>cur\<close>, reversed.
\<close>

fun split_acc :: "string \<Rightarrow> string \<Rightarrow> string list" where
  "split_acc cur [] = [rev cur]"
| "split_acc cur (ch # rest) =
     (if is_delim ch then rev cur # split_acc [] rest else split_acc (ch # cur) rest)"

text \<open>\<open>absl::SkipWhitespace\<close> keeps a piece unless it is empty or all whitespace.\<close>

definition SkipWhitespace :: "string \<Rightarrow> bool" where
  "SkipWhitespace piece \<longleftrightarrow> \<not> list_all ascii_isspace piece"

definition StrSplit :: "string \<Rightarrow> string list" where
  "StrSplit line = filter SkipWhitespace (split_acc [] line)"

text \<open>\<open>absl::StrJoin(parts, sep)\<close>.\<close>

fun StrJoin :: "string list \<Rightarrow> string \<Rightarrow> string" where
  "StrJoin [] sep = []"
| "StrJoin [x] sep = x"
| "StrJoin (x # y # ys) sep = x @ sep @ StrJoin (y # ys) sep"

text \<open>Decimal digits of a \<open>size_t\<close>, as \<open>absl::StrCat\<close> prints it.\<close>

definition digit_char :: "nat \<Rightarrow> char" where
  "digit_char d = ''0123456789'' ! d"

fun dec :: "nat \<Rightarrow> string" where
  "dec n = (if n < 10 then [digit_char n] else dec (n div 10) @ [digit_char (n mod 10)])"

declare dec.simps [simp del]

text \<open>
  \<open>absl::SimpleAtoi\<close> into an \<open>int\<close> (32 bits): whitespace is stripped at both ends,
  then an optional sign, then one or more decimal digits and nothing else; a value outside
  the range of \<open>int\<close> is refused.
\<close>

definition digit_val :: "char \<Rightarrow> nat option" where
  "digit_val ch =
     (if CHR ''0'' \<le> ch \<and> ch \<le> CHR ''9'' then Some (of_char ch - of_char (CHR ''0'')) else None)"

fun parse_digits :: "int \<Rightarrow> string \<Rightarrow> int option" where
  "parse_digits acc [] = Some acc"
| "parse_digits acc (ch # rest) =
     (case digit_val ch of None \<Rightarrow> None | Some d \<Rightarrow> parse_digits (acc * 10 + int d) rest)"

definition StripAsciiWhitespace :: "string \<Rightarrow> string" where
  "StripAsciiWhitespace text = rev (dropWhile ascii_isspace (rev (dropWhile ascii_isspace text)))"

definition SimpleAtoi :: "string \<Rightarrow> int option" where
  "SimpleAtoi text =
     (case StripAsciiWhitespace text of
        [] \<Rightarrow> None
      | ch # rest \<Rightarrow>
          let negative = (ch = CHR ''-'');
              digits = (if negative \<or> ch = CHR ''+'' then rest else ch # rest)
          in if digits = [] then None
             else (case parse_digits 0 digits of
                     None \<Rightarrow> None
                   | Some n \<Rightarrow>
                       if negative then (if n \<le> 2147483648 then Some (- n) else None)
                       else (if n \<le> 2147483647 then Some n else None)))"

text \<open>\<open>std::tolower\<close> in the C locale.\<close>

definition tolower :: "char \<Rightarrow> char" where
  "tolower ch =
     (case map_of (zip ''ABCDEFGHIJKLMNOPQRSTUVWXYZ'' ''abcdefghijklmnopqrstuvwxyz'') ch of
        Some lower \<Rightarrow> lower
      | None \<Rightarrow> ch)"

subsection \<open>Responses\<close>

text \<open>
  Modelled from the spec: \<open>GtpClient::Response\<close> is declared in cc/gtp_client.h, which is
  not among the sources. The spec gives its fields (ok, done, an optional cmd_id, the body)
  and its factories: Ok, with an optional body; Error, whose message is its parts joined;
  Done, the terminal response with \<open>ok\<close> and \<open>done\<close> set.
\<close>

record Response =
  str :: string
  ok :: bool
  done_flag :: bool
  cmd_id :: "int option"

definition Response_Ok :: "string \<Rightarrow> Response" where
  "Response_Ok body = \<lparr>str = body, ok = True, done_flag = False, cmd_id = None\<rparr>"

definition Response_Error :: "string \<Rightarrow> Response" where
  "Response_Error msg = \<lparr>str = msg, ok = False, done_flag = False, cmd_id = None\<rparr>"

definition Response_Done :: Response where
  "Response_Done = \<lparr>str = [], ok = True, done_flag = True, cmd_id = None\<rparr>"

definition set_cmd_id :: "int \<Rightarrow> Response \<Rightarrow> Response" where
  "set_cmd_id n response = response\<lparr>cmd_id := Some n\<rparr>"

subsection \<open>Argument counts\<close>

definition CheckArgsExact :: "nat \<Rightarrow> string list \<Rightarrow> Response" where
  "CheckArgsExact expected_num_args args =
     (if length args \<noteq> expected_num_args
      then Response_Error (''expected '' @ dec expected_num_args @ '' args, got '' @
                           dec (length args) @ '' args: '' @ StrJoin args '' '')
      else Response_Ok [])"

definition CheckArgsRange :: "nat \<Rightarrow> nat \<Rightarrow> string list \<Rightarrow> Response" where
  "CheckArgsRange expected_min_args expected_max_args args =
     (if length args < expected_min_args \<or> length args > expected_max_args
      then Response_Error (''expected between '' @ dec expected_min_args @ '' and '' @
                           dec expected_max_args @ '' args, got '' @ dec (length args) @
                           '' args: '' @ StrJoin args '' '')
      else Response_Ok [])"

subsection \<open>Floats, times and durations\<close>

text \<open>
  A \<open>float\<close> or \<open>double\<close> is modelled by its value: a rational, an infinity or NaN
  (negative zero is zero). Only comparisons are made on them; how a text is parsed into one
  (\<open>absl::SimpleAtof\<close>, \<open>absl::SimpleAtod\<close>) is left to \<open>env\<close>.
\<close>

datatype float = NaN | NegInf | Finite rat | PosInf

text \<open>The comparison \<open>a <= b\<close> of IEEE 754: false when either side is NaN.\<close>

fun float_le :: "float \<Rightarrow> float \<Rightarrow> bool" where
  "float_le NaN b = False"
| "float_le a NaN = False"
| "float_le NegInf b = True"
| "float_le a PosInf = True"
| "float_le (Finite x) (Finite y) = (x \<le> y)"
| "float_le a b = False"

text \<open>The comparison \<open>a != b\<close> of IEEE 754: true when either side is NaN.\<close>

definition float_ne :: "float \<Rightarrow> float \<Rightarrow> bool" where
  "float_ne a b \<longleftrightarrow> a = NaN \<or> b = NaN \<or> a \<noteq> b"

text \<open>
  \<open>absl::Duration\<close> and \<open>absl::Time\<close>: a count of ticks, or an infinity. A time plus a
  duration keeps an infinite time, becomes infinite with an infinite duration, and is the
  sum otherwise (the saturation at the ends of the 64-bit range is left out).
\<close>

datatype duration = NegInfiniteDuration | Ticks int | InfiniteDuration

datatype time = InfinitePast | At int | InfiniteFuture

definition ZeroDuration :: duration where
  "ZeroDuration = Ticks 0"

fun time_plus :: "time \<Rightarrow> duration \<Rightarrow> time" where
  "time_plus InfinitePast d = InfinitePast"
| "time_plus InfiniteFuture d = InfiniteFuture"
| "time_plus (At t) NegInfiniteDuration = InfinitePast"
| "time_plus (At t) InfiniteDuration = InfiniteFuture"
| "time_plus (At t) (Ticks d) = At (t + d)"

text \<open>The comparison \<open>a >= b\<close> on times.\<close>

fun time_ge :: "time \<Rightarrow> time \<Rightarrow> bool" where
  "time_ge a InfinitePast = True"
| "time_ge InfiniteFuture b = True"
| "time_ge InfinitePast b = False"
| "time_ge a InfiniteFuture = False"
| "time_ge (At x) (At y) = (y \<le> x)"

subsection \<open>The player and the environment\<close>

text \<open>A point of the board, or one of the special values \<open>Coord::kPass\<close>, \<open>Coord::kInvalid\<close>.\<close>

type_synonym Coord = nat

datatype Color = kEmpty | kBlack | kWhite

text \<open>
  Modelled from the spec: \<open>MctsPlayer::Options\<close> (cc/mcts_player.h) is not among the
  sources. These are the three fields the client reads and writes: the readout budget, the
  parallelism factor and the seconds per move.
\<close>

record MctsPlayer_Options =
  num_readouts :: int
  virtual_losses :: int
  seconds_per_move :: float

text \<open>
  Modelled from the spec: the player (cc/mcts_player.h) is not among the sources. Its
  options are read with \<open>options()\<close> and replaced with \<open>SetOptions\<close>. Everything else
  it holds (the search tree, its root, the model, and the game record that the client owns
  and the player writes through a pointer) is the component \<open>session\<close>, of a type the
  client knows nothing about.
\<close>

record 'e MctsPlayer =
  options :: MctsPlayer_Options
  session :: 'e

definition SetOptions :: "MctsPlayer_Options \<Rightarrow> 'e MctsPlayer \<Rightarrow> 'e MctsPlayer" where
  "SetOptions new_options p = p\<lparr>options := new_options\<rparr>"

text \<open>A move of an SGF main line, and a tree of which only the main line is read.\<close>

record sgf_Move =
  move_color :: Color
  move_c :: Coord

datatype sgf_Node = Node (ExtractMainLine: "sgf_Move list")

text \<open>
  The collaborators. A call that mutates the player returns the new player, after its
  result if it has one. \<open>Ast_Parse text\<close> says whether \<open>sgf::Ast::Parse\<close> accepts the
  text, and \<open>GetTrees text\<close> is what \<open>sgf::GetTrees\<close> extracts from the parsed text
  (\<open>None\<close> when it returns false). \<open>Now\<close> is the clock at the call.
\<close>

record 'e env =
  Now :: time
  Seconds :: "float \<Rightarrow> duration"
  SimpleAtof :: "string \<Rightarrow> float option"
  SimpleAtod :: "string \<Rightarrow> float option"
  kN :: int
  Coord_kPass :: Coord
  Coord_kInvalid :: Coord
  Coord_FromGtp :: "string \<Rightarrow> bool \<Rightarrow> Coord"
  Coord_ToGtp :: "Coord \<Rightarrow> string"
  ReadFile :: "string \<Rightarrow> string option"
  Ast_Parse :: "string \<Rightarrow> bool"
  GetTrees :: "string \<Rightarrow> sgf_Node list option"
  FormatScore :: "float \<Rightarrow> string"
  player_NewGame :: "'e MctsPlayer \<Rightarrow> 'e MctsPlayer"
  PlayMove :: "Coord \<Rightarrow> 'e MctsPlayer \<Rightarrow> bool \<times> 'e MctsPlayer"
  UndoMove :: "'e MctsPlayer \<Rightarrow> bool \<times> 'e MctsPlayer"
  SuggestMove :: "int \<Rightarrow> 'e MctsPlayer \<Rightarrow> Coord \<times> 'e MctsPlayer"
  TreeSearch :: "int \<Rightarrow> int \<Rightarrow> 'e MctsPlayer \<Rightarrow> 'e MctsPlayer"
  ClearChildren :: "'e MctsPlayer \<Rightarrow> 'e MctsPlayer"
  root_ClearChildren :: "'e MctsPlayer \<Rightarrow> 'e MctsPlayer"
  root_N :: "'e MctsPlayer \<Rightarrow> int"
  root_game_over :: "'e MctsPlayer \<Rightarrow> bool"
  root_move :: "'e MctsPlayer \<Rightarrow> Coord"
  to_play :: "'e MctsPlayer \<Rightarrow> Color"
  CalculateScore :: "float \<Rightarrow> 'e MctsPlayer \<Rightarrow> float"
  ToPrettyString :: "bool \<Rightarrow> 'e MctsPlayer \<Rightarrow> string"
  model_name :: "'e MctsPlayer \<Rightarrow> string"
  game_over :: "'e MctsPlayer \<Rightarrow> bool"
  komi :: "'e MctsPlayer \<Rightarrow> float"
  result_string :: "'e MctsPlayer \<Rightarrow> string"

subsection \<open>The client\<close>

datatype PonderType = kOff | kReadLimited | kTimeLimited

record GtpClient_Options =
  ponder_limit :: int
  courtesy_pass :: bool
  tree_reuse :: bool

text \<open>The member functions a command name can be bound to.\<close>

datatype Handler =
    BenchmarkCmd | BoardsizeCmd | ClearBoardCmd | FinalScoreCmd | GenmoveCmd
  | KnownCommandCmd | KomiCmd | ListCommandsCmd | LoadsgfCmd | NameCmd | PlayCmd
  | PonderCmd | ReadoutsCmd | ShowboardCmd | UndoCmd

text \<open>
  The fields of the client. \<open>cmd_handlers\<close> is the table of handlers; the order of the
  list is the order in which the table is iterated, which for a hash table is any order.
\<close>

record 'e GtpClient =
  player :: "'e MctsPlayer"
  client_options :: GtpClient_Options
  ponder_type :: PonderType
  ponder_read_count :: int
  ponder_duration :: duration
  ponder_time_limit :: time
  ponder_limit_reached :: bool
  cmd_handlers :: "(string \<times> Handler) list"

datatype fault = OutOfRange | CheckFailed

type_synonym 'e result = "fault + Response \<times> 'e GtpClient"

text \<open>
  Modelled from the spec: \<open>RegisterCmd\<close> is defined in cc/gtp_client.h, which is not among
  the sources. It binds the name to the handler, replacing an earlier binding of the name.
\<close>

definition RegisterCmd :: "string \<Rightarrow> Handler \<Rightarrow> 'e GtpClient \<Rightarrow> 'e GtpClient" where
  "RegisterCmd cmd handler s = s\<lparr>cmd_handlers := AList.update cmd handler (cmd_handlers s)\<rparr>"

text \<open>A run of registrations, in the order of the list.\<close>

definition RegisterCmds :: "(string \<times> Handler) list \<Rightarrow> 'e GtpClient \<Rightarrow> 'e GtpClient" where
  "RegisterCmds regs s = foldl (\<lambda>s (cmd, handler). RegisterCmd cmd handler s) s regs"

text \<open>The body of the constructor, on the client as its member initialisers leave it.\<close>

definition constructor :: "'e GtpClient \<Rightarrow> 'e GtpClient" where
  "constructor s0 =
     (let s = (if ponder_limit (client_options s0) > 0 then s0\<lparr>ponder_type := kReadLimited\<rparr> else s0)
      in RegisterCmds
           [(''benchmark'', BenchmarkCmd), (''boardsize'', BoardsizeCmd),
            (''clear_board'', ClearBoardCmd), (''final_score'', FinalScoreCmd),
            (''genmove'', GenmoveCmd), (''known_command'', KnownCommandCmd),
            (''komi'', KomiCmd), (''list_commands'', ListCommandsCmd),
            (''loadsgf'', LoadsgfCmd), (''name'', NameCmd), (''play'', PlayCmd),
            (''ponder'', PonderCmd), (''readouts'', ReadoutsCmd),
            (''showboard'', ShowboardCmd), (''undo'', UndoCmd)]
           s)"

subsection \<open>The ponder scheduler\<close>

definition MaybeStartPondering :: "'e env \<Rightarrow> 'e GtpClient \<Rightarrow> 'e GtpClient" where
  "MaybeStartPondering env s =
     (if ponder_type s \<noteq> kOff
      then let s1 = s\<lparr>ponder_limit_reached := False, ponder_read_count := 0\<rparr>
           in if ponder_type s1 = kTimeLimited
              then s1\<lparr>ponder_time_limit := time_plus (Now env) (ponder_duration s1)\<rparr>
              else s1
      else s)"

definition NewGame :: "'e env \<Rightarrow> 'e GtpClient \<Rightarrow> 'e GtpClient" where
  "NewGame env s = MaybeStartPondering env (s\<lparr>player := player_NewGame env (player s)\<rparr>)"

text \<open>\<open>std::numeric_limits<int>::max()\<close>.\<close>

definition int_max :: int where
  "int_max = 2147483647"

definition Ponder :: "'e env \<Rightarrow> 'e GtpClient \<Rightarrow> 'e GtpClient" where
  "Ponder env s =
     (let n = root_N env (player s);
          p = TreeSearch env (virtual_losses (options (player s))) int_max (player s)
      in s\<lparr>player := p, ponder_read_count := ponder_read_count s + (root_N env p - n)\<rparr>)"

definition MaybePonder :: "'e env \<Rightarrow> 'e GtpClient \<Rightarrow> bool \<times> 'e GtpClient" where
  "MaybePonder env s =
     (if root_game_over env (player s) \<or> ponder_type s = kOff \<or> ponder_limit_reached s
      then (False, s)
      else if (ponder_type s = kReadLimited \<and>
               ponder_read_count s \<ge> ponder_limit (client_options s)) \<or>
              (ponder_type s = kTimeLimited \<and> time_ge (Now env) (ponder_time_limit s))
      then (False, if \<not> ponder_limit_reached s then s\<lparr>ponder_limit_reached := True\<rparr> else s)
      else (True, Ponder env s))"

subsection \<open>Loading a game record\<close>

text \<open>The loop of \<open>ReplaySgf\<close> over the moves of the main line.\<close>

fun replay_moves :: "'e env \<Rightarrow> sgf_Move list \<Rightarrow> 'e MctsPlayer \<Rightarrow> Response \<times> 'e MctsPlayer" where
  "replay_moves env [] p = (Response_Ok [], p)"
| "replay_moves env (move # rest) p =
     (case PlayMove env (move_c move) p of
        (played, p') \<Rightarrow>
          if \<not> played then (Response_Error ''Cannot load file'', p')
          else replay_moves env rest p')"

definition ReplaySgf :: "'e env \<Rightarrow> sgf_Node list \<Rightarrow> 'e GtpClient \<Rightarrow> Response \<times> 'e GtpClient" where
  "ReplaySgf env trees s =
     (case trees of
        [] \<Rightarrow> (Response_Ok [], s)
      | tree # _ \<Rightarrow>
          (case replay_moves env (ExtractMainLine tree) (player s) of
             (response, p) \<Rightarrow> (response, s\<lparr>player := p\<rparr>)))"

definition ParseSgf :: "'e env \<Rightarrow> string \<Rightarrow> Response \<times> sgf_Node list" where
  "ParseSgf env sgf_str =
     (if \<not> Ast_Parse env sgf_str then (Response_Error ''cannot load file'', [])
      else (case GetTrees env sgf_str of
              None \<Rightarrow> (Response_Error ''cannot load file'', [])
            | Some trees \<Rightarrow> (Response_Ok [], trees)))"

subsection \<open>The handlers\<close>

definition HandleBenchmark :: "'e env \<Rightarrow> 'e GtpClient \<Rightarrow> string list \<Rightarrow> 'e result" where
  "HandleBenchmark env s args =
     (let response = CheckArgsRange 0 2 args in
      if \<not> ok response then Inr (response, s)
      else
        let saved_options = options (player s) in
        case (if length args > 0
              then (case SimpleAtoi (args ! 0) of
                      None \<Rightarrow> None
                    | Some n \<Rightarrow> Some (saved_options\<lparr>seconds_per_move := Finite 0, num_readouts := n\<rparr>))
              else Some saved_options) of
          None \<Rightarrow> Inr (Response_Error ''bad num_readouts'', s)
        | Some temp_options1 \<Rightarrow>
            (case (if length args = 2
                   then (case SimpleAtoi (args ! 1) of
                           None \<Rightarrow> None
                         | Some v \<Rightarrow> Some (temp_options1\<lparr>virtual_losses := v\<rparr>))
                   else Some temp_options1) of
               None \<Rightarrow> Inr (Response_Error ''bad virtual_losses'', s)
             | Some temp_options \<Rightarrow>
                 let p1 = SetOptions temp_options (player s);
                     p2 = snd (SuggestMove env (num_readouts temp_options) p1);
                     p3 = SetOptions saved_options p2
                 in Inr (Response_Ok [], s\<lparr>player := p3\<rparr>)))"

definition HandleBoardsize :: "'e env \<Rightarrow> 'e GtpClient \<Rightarrow> string list \<Rightarrow> 'e result" where
  "HandleBoardsize env s args =
     (let response = CheckArgsExact 1 args in
      if \<not> ok response then Inr (response, s)
      else (case SimpleAtoi (args ! 0) of
              None \<Rightarrow> Inr (Response_Error ''unacceptable size'', s)
            | Some x \<Rightarrow>
                if x \<noteq> kN env then Inr (Response_Error ''unacceptable size'', s)
                else Inr (Response_Ok [], s)))"

definition HandleClearBoard :: "'e env \<Rightarrow> 'e GtpClient \<Rightarrow> string list \<Rightarrow> 'e result" where
  "HandleClearBoard env s args =
     (let response = CheckArgsExact 0 args in
      if \<not> ok response then Inr (response, s)
      else Inr (Response_Ok [], NewGame env s))"

definition HandleFinalScore :: "'e env \<Rightarrow> 'e GtpClient \<Rightarrow> string list \<Rightarrow> 'e result" where
  "HandleFinalScore env s args =
     (let response = CheckArgsExact 0 args in
      if \<not> ok response then Inr (response, s)
      else if \<not> game_over env (player s)
      then Inr (Response_Ok (FormatScore env (CalculateScore env (komi env (player s)) (player s))), s)
      else Inr (Response_Ok (result_string env (player s)), s))"

definition HandleGenmove :: "'e env \<Rightarrow> 'e GtpClient \<Rightarrow> string list \<Rightarrow> 'e result" where
  "HandleGenmove env s args =
     (let response = CheckArgsRange 0 1 args in
      if \<not> ok response then Inr (response, s)
      else if root_game_over env (player s) then Inr (Response_Error ''game is over'', s)
      else
        let (c, p1) =
              (if courtesy_pass (client_options s) \<and> root_move env (player s) = Coord_kPass env
               then (Coord_kPass env, player s)
               else let p0 = (if \<not> tree_reuse (client_options s)
                              then ClearChildren env (player s) else player s)
                    in SuggestMove env (num_readouts (options p0)) p0);
            (played, p2) = PlayMove env c p1
        in if \<not> played then Inl CheckFailed
           else Inr (Response_Ok (Coord_ToGtp env c), MaybeStartPondering env (s\<lparr>player := p2\<rparr>)))"

definition HandleKnownCommand :: "'e env \<Rightarrow> 'e GtpClient \<Rightarrow> string list \<Rightarrow> 'e result" where
  "HandleKnownCommand env s args =
     (let response = CheckArgsExact 1 args in
      if \<not> ok response then Inr (response, s)
      else if map_of (cmd_handlers s) (args ! 0) \<noteq> None
      then Inr (Response_Ok ''true'', s)
      else Inr (Response_Ok ''false'', s))"

definition HandleKomi :: "'e env \<Rightarrow> 'e GtpClient \<Rightarrow> string list \<Rightarrow> 'e result" where
  "HandleKomi env s args =
     (let response = CheckArgsExact 1 args in
      if \<not> ok response then Inr (response, s)
      else (case SimpleAtod env (args ! 0) of
              None \<Rightarrow> Inr (Response_Error ''unacceptable komi'', s)
            | Some x \<Rightarrow>
                if float_ne x (komi env (player s)) then Inr (Response_Error ''unacceptable komi'', s)
                else Inr (Response_Ok [], s)))"

definition HandleListCommands :: "'e env \<Rightarrow> 'e GtpClient \<Rightarrow> string list \<Rightarrow> 'e result" where
  "HandleListCommands env s args =
     (let response = CheckArgsExact 0 args in
      if \<not> ok response then Inr (response, s)
      else
        let cmds = map fst (cmd_handlers s);
            cmds = sort cmds
        in Inr (response\<lparr>str := StrJoin cmds [CHR 0x0A]\<rparr>, s))"

definition HandleLoadsgf :: "'e env \<Rightarrow> 'e GtpClient \<Rightarrow> string list \<Rightarrow> 'e result" where
  "HandleLoadsgf env s args =
     (let response = CheckArgsExact 1 args in
      if \<not> ok response then Inr (response, s)
      else (case ReadFile env (args ! 0) of
              None \<Rightarrow> Inr (Response_Error ''cannot load file'', s)
            | Some contents \<Rightarrow>
                (case ParseSgf env contents of
                   (response, trees) \<Rightarrow>
                     if \<not> ok response then Inr (response, s)
                     else Inr (ReplaySgf env trees (NewGame env s)))))"

definition HandleName :: "'e env \<Rightarrow> 'e GtpClient \<Rightarrow> string list \<Rightarrow> 'e result" where
  "HandleName env s args =
     (let response = CheckArgsExact 0 args in
      if \<not> ok response then Inr (response, s)
      else Inr (Response_Ok (''minigo-'' @ model_name env (player s)), s))"

definition HandlePlay :: "'e env \<Rightarrow> 'e GtpClient \<Rightarrow> string list \<Rightarrow> 'e result" where
  "HandlePlay env s args =
     (let response = CheckArgsExact 2 args in
      if \<not> ok response then Inr (response, s)
      else if root_game_over env (player s) then Inr (Response_Error ''game is over'', s)
      else (case args ! 0 of
              [] \<Rightarrow> Inl OutOfRange
            | ch # _ \<Rightarrow>
                (case (if tolower ch = CHR ''b'' then Some kBlack
                       else if tolower ch = CHR ''w'' then Some kWhite
                       else None) of
                   None \<Rightarrow> Inr (Response_Error ''illegal move'', s)
                 | Some color \<Rightarrow>
                     if color \<noteq> to_play env (player s)
                     then Inr (Response_Error ''out of turn moves are not yet supported'', s)
                     else
                       let c = Coord_FromGtp env (args ! 1) True in
                       if c = Coord_kInvalid env then Inr (Response_Error ''illegal move'', s)
                       else (case PlayMove env c (player s) of
                               (played, p) \<Rightarrow>
                                 if \<not> played then Inr (Response_Error ''illegal move'', s\<lparr>player := p\<rparr>)
                                 else Inr (Response_Ok [], s\<lparr>player := p\<rparr>)))))"

definition HandlePonder :: "'e env \<Rightarrow> 'e GtpClient \<Rightarrow> string list \<Rightarrow> 'e result" where
  "HandlePonder env s args =
     (let response = CheckArgsRange 1 2 args in
      if \<not> ok response then Inr (response, s)
      else if args ! 0 = ''off''
      then Inr (Response_Ok [],
                s\<lparr>ponder_type := kOff,
                  ponder_read_count := 0,
                  client_options := (client_options s)\<lparr>ponder_limit := 0\<rparr>,
                  ponder_duration := ZeroDuration,
                  ponder_time_limit := InfinitePast,
                  ponder_limit_reached := True\<rparr>)
      else
        let response = CheckArgsExact 2 args in
        if \<not> ok response then Inr (response, s)
        else if args ! 0 = ''reads''
        then (case SimpleAtoi (args ! 1) of
                None \<Rightarrow> Inr (Response_Error ''couldn't parse read limit'', s)
              | Some read_limit \<Rightarrow>
                  if read_limit \<le> 0 then Inr (Response_Error ''couldn't parse read limit'', s)
                  else Inr (Response_Ok [],
                            s\<lparr>client_options := (client_options s)\<lparr>ponder_limit := read_limit\<rparr>,
                              ponder_type := kReadLimited,
                              ponder_read_count := 0,
                              ponder_limit_reached := False\<rparr>))
        else if args ! 0 = ''time''
        then (case SimpleAtof env (args ! 1) of
                None \<Rightarrow> Inr (Response_Error ''couldn't parse time limit'', s)
              | Some d \<Rightarrow>
                  if float_le d (Finite 0) then Inr (Response_Error ''couldn't parse time limit'', s)
                  else Inr (Response_Ok [],
                            s\<lparr>ponder_type := kTimeLimited,
                              ponder_duration := Seconds env d,
                              ponder_time_limit := time_plus (Now env) (Seconds env d),
                              ponder_limit_reached := False\<rparr>))
        else Inr (Response_Error ''unrecognized ponder mode'', s))"

definition HandleReadouts :: "'e env \<Rightarrow> 'e GtpClient \<Rightarrow> string list \<Rightarrow> 'e result" where
  "HandleReadouts env s args =
     (let response = CheckArgsExact 1 args in
      if \<not> ok response then Inr (response, s)
      else (case (case SimpleAtoi (args ! 0) of
                    None \<Rightarrow> None
                  | Some x \<Rightarrow> if x \<le> 0 then None else Some x) of
              None \<Rightarrow> Inr (Response_Error (''couldn't parse '' @ args ! 0 @ '' as an integer > 0''), s)
            | Some x \<Rightarrow>
                let new_options = (options (player s))\<lparr>num_readouts := x\<rparr>
                in Inr (Response_Ok [], s\<lparr>player := SetOptions new_options (player s)\<rparr>)))"

definition HandleShowboard :: "'e env \<Rightarrow> 'e GtpClient \<Rightarrow> string list \<Rightarrow> 'e result" where
  "HandleShowboard env s args =
     (let response = CheckArgsExact 0 args in
      if \<not> ok response then Inr (response, s)
      else Inr (Response_Ok ([CHR 0x0A] @ ToPrettyString env False (player s)), s))"

definition HandleUndo :: "'e env \<Rightarrow> 'e GtpClient \<Rightarrow> string list \<Rightarrow> 'e result" where
  "HandleUndo env s args =
     (let response = CheckArgsExact 0 args in
      if \<not> ok response then Inr (response, s)
      else (case UndoMove env (player s) of
              (undone, p) \<Rightarrow>
                if \<not> undone then Inr (Response_Error ''cannot undo'', s\<lparr>player := p\<rparr>)
                else if \<not> tree_reuse (client_options s)
                then Inr (Response_Ok [], s\<lparr>player := root_ClearChildren env p\<rparr>)
                else Inr (Response_Ok [], s\<lparr>player := p\<rparr>)))"

subsection \<open>Dispatch\<close>

text \<open>Calling the member function a table entry points to.\<close>

fun call_handler :: "Handler \<Rightarrow> 'e env \<Rightarrow> 'e GtpClient \<Rightarrow> string list \<Rightarrow> 'e result" where
  "call_handler BenchmarkCmd = HandleBenchmark"
| "call_handler BoardsizeCmd = HandleBoardsize"
| "call_handler ClearBoardCmd = HandleClearBoard"
| "call_handler FinalScoreCmd = HandleFinalScore"
| "call_handler GenmoveCmd = HandleGenmove"
| "call_handler KnownCommandCmd = HandleKnownCommand"
| "call_handler KomiCmd = HandleKomi"
| "call_handler ListCommandsCmd = HandleListCommands"
| "call_handler LoadsgfCmd = HandleLoadsgf"
| "call_handler NameCmd = HandleName"
| "call_handler PlayCmd = HandlePlay"
| "call_handler PonderCmd = HandlePonder"
| "call_handler ReadoutsCmd = HandleReadouts"
| "call_handler ShowboardCmd = HandleShowboard"
| "call_handler UndoCmd = HandleUndo"

definition DispatchCmd :: "'e env \<Rightarrow> 'e GtpClient \<Rightarrow> string \<Rightarrow> string list \<Rightarrow> 'e result" where
  "DispatchCmd env s cmd args =
     (case map_of (cmd_handlers s) cmd of
        None \<Rightarrow> Inr (Response_Error ''unknown command'', s)
      | Some handler \<Rightarrow> call_handler handler env s args)"

text \<open>
  \<open>HandleCmd\<close>. The emptiness of the token list is tested once, before the tag is
  stripped; \<open>args[0]\<close> is read after it.
\<close>

definition HandleCmd :: "'e env \<Rightarrow> 'e GtpClient \<Rightarrow> string \<Rightarrow> 'e result" where
  "HandleCmd env s line =
     (case StrSplit line of
        [] \<Rightarrow> Inr (Response_Ok [], s)
      | first # others \<Rightarrow>
          let has_cmd_id = SimpleAtoi first;
              args = (if has_cmd_id \<noteq> None then others else first # others)
          in (case args of
                [] \<Rightarrow> Inl OutOfRange
              | cmd # args \<Rightarrow>
                  (case (if cmd = ''quit'' then Inr (Response_Done, s)
                         else DispatchCmd env s cmd args) of
                     Inl f \<Rightarrow> Inl f
                   | Inr (response, s') \<Rightarrow>
                       (case has_cmd_id of
                          Some n \<Rightarrow> Inr (set_cmd_id n response, s')
                        | None \<Rightarrow> Inr (response, s')))))"

subsection \<open>A small environment to run the client in\<close>

text \<open>
  The theorems below hold for every environment. To run the client on concrete input one
  environment is fixed here: a session that records the moves played and the reads at the
  root, on a board of 19 lines. A point may be played once; a pass always; a tree search
  adds as many reads as its first argument; the move suggested is a pass. Coordinates are
  written as numbers, floats as integers, and the one file that exists holds a record whose
  main line plays the point 3 twice.
\<close>

record toy_session =
  moves :: "Coord list"
  reads :: int

definition toy_PlayMove :: "Coord \<Rightarrow> toy_session MctsPlayer \<Rightarrow> bool \<times> toy_session MctsPlayer" where
  "toy_PlayMove c p =
     (if c \<noteq> 361 \<and> (c > 361 \<or> c \<in> set (moves (session p))) then (False, p)
      else (True, p\<lparr>session := \<lparr>moves = moves (session p) @ [c], reads = 0\<rparr>\<rparr>))"

definition toy_over :: "toy_session MctsPlayer \<Rightarrow> bool" where
  "toy_over p = (case rev (moves (session p)) of a # b # _ \<Rightarrow> a = 361 \<and> b = 361 | _ \<Rightarrow> False)"

definition toy_env :: "toy_session env" where
  "toy_env =
     \<lparr>Now = At 100,
      Seconds = (\<lambda>d. case d of Finite q \<Rightarrow> Ticks \<lfloor>q\<rfloor> | NegInf \<Rightarrow> NegInfiniteDuration
                              | _ \<Rightarrow> InfiniteDuration),
      SimpleAtof = (\<lambda>text. map_option (\<lambda>n. Finite (of_int n)) (SimpleAtoi text)),
      SimpleAtod = (\<lambda>text. map_option (\<lambda>n. Finite (of_int n)) (SimpleAtoi text)),
      kN = 19,
      Coord_kPass = 361,
      Coord_kInvalid = 65535,
      Coord_FromGtp = (\<lambda>text allow_pass.
         if text = ''pass'' then 361
         else (case SimpleAtoi text of
                 Some n \<Rightarrow> if 0 \<le> n \<and> n < 361 then nat n else 65535
               | None \<Rightarrow> 65535)),
      Coord_ToGtp = (\<lambda>c. if c = 361 then ''pass'' else dec c),
      ReadFile = (\<lambda>name. if name = ''game.sgf'' then Some ''(;B[dq];W[dq])'' else None),
      Ast_Parse = (\<lambda>text. text \<noteq> []),
      GetTrees = (\<lambda>text. Some [Node [\<lparr>move_color = kBlack, move_c = 3\<rparr>,
                                      \<lparr>move_color = kWhite, move_c = 3\<rparr>]]),
      FormatScore = (\<lambda>score. ''0''),
      player_NewGame = (\<lambda>p. p\<lparr>session := \<lparr>moves = [], reads = 0\<rparr>\<rparr>),
      PlayMove = toy_PlayMove,
      UndoMove = (\<lambda>p. if moves (session p) = [] then (False, p)
                       else (True, p\<lparr>session := \<lparr>moves = butlast (moves (session p)), reads = 0\<rparr>\<rparr>)),
      SuggestMove = (\<lambda>n p. (361, p\<lparr>session := (session p)\<lparr>reads := reads (session p) + n\<rparr>\<rparr>)),
      TreeSearch = (\<lambda>n cap p. p\<lparr>session := (session p)\<lparr>reads := reads (session p) + n\<rparr>\<rparr>),
      ClearChildren = (\<lambda>p. p\<lparr>session := (session p)\<lparr>reads := 0\<rparr>\<rparr>),
      root_ClearChildren = (\<lambda>p. p\<lparr>session := (session p)\<lparr>reads := 0\<rparr>\<rparr>),
      root_N = (\<lambda>p. reads (session p)),
      root_game_over = toy_over,
      root_move = (\<lambda>p. case rev (moves (session p)) of [] \<Rightarrow> 65535 | a # _ \<Rightarrow> a),
      to_play = (\<lambda>p. if even (length (moves (session p))) then kBlack else kWhite),
      CalculateScore = (\<lambda>k p. Finite 0),
      ToPrettyString = (\<lambda>use_ansi p. ''board''),
      model_name = (\<lambda>p. ''toy''),
      game_over = toy_over,
      komi = (\<lambda>p. Finite (15 / 2)),
      result_string = (\<lambda>p. ''0'')\<rparr>"

text \<open>A player with the given moves played and reads at the root.\<close>

definition toy_player :: "Coord list \<Rightarrow> int \<Rightarrow> toy_session MctsPlayer" where
  "toy_player ms n =
     \<lparr>options = \<lparr>num_readouts = 100, virtual_losses = 8, seconds_per_move = Finite 0\<rparr>,
      session = \<lparr>moves = ms, reads = n\<rparr>\<rparr>"

text \<open>The client after its constructor, pondering off, with the given player.\<close>

definition toy_client :: "toy_session MctsPlayer \<Rightarrow> toy_session GtpClient" where
  "toy_client p =
     constructor
       \<lparr>player = p,
        client_options = \<lparr>ponder_limit = 0, courtesy_pass = False, tree_reuse = True\<rparr>,
        ponder_type = kOff,
        ponder_read_count = 0,
        ponder_duration = ZeroDuration,
        ponder_time_limit = InfinitePast,
        ponder_limit_reached = False,
        cmd_handlers = []\<rparr>"

text \<open>The same client pondering under a limit of reads, with a count of reads so far.\<close>

definition toy_reading :: "toy_session MctsPlayer \<Rightarrow> int \<Rightarrow> int \<Rightarrow> toy_session GtpClient" where
  "toy_reading p limit n =
     (toy_client p)
       \<lparr>client_options := \<lparr>ponder_limit = limit, courtesy_pass = False, tree_reuse = True\<rparr>,
        ponder_type := kReadLimited,
        ponder_read_count := n\<rparr>"

section \<open>Properties\<close>

subsection \<open>Basic facts\<close>

lemma ok_Response_Ok [simp]: "ok (Response_Ok body)"
  by (simp add: Response_Ok_def)

lemma ok_Response_Error [simp]: "\<not> ok (Response_Error msg)"
  by (simp add: Response_Error_def)

lemma CheckArgsExact_ok: "ok (CheckArgsExact n args) \<longleftrightarrow> length args = n"
  by (simp add: CheckArgsExact_def)

lemma CheckArgsRange_ok:
  "ok (CheckArgsRange lo hi args) \<longleftrightarrow> lo \<le> length args \<and> length args \<le> hi"
  by (auto simp add: CheckArgsRange_def)

text \<open>\<open>dec\<close> writes the decimal digits of its argument: reading them gives it back.\<close>

lemma digit_val_digit_char: "d < 10 \<Longrightarrow> digit_val (digit_char d) = Some d"
proof -
  assume "d < 10"
  then have "d \<in> {0, 1, 2, 3, 4, 5, 6, 7, 8, 9}" by auto
  then show ?thesis by (auto simp: digit_val_def digit_char_def)
qed

lemma parse_digits_append:
  "parse_digits acc (xs @ ys) =
     (case parse_digits acc xs of None \<Rightarrow> None | Some a \<Rightarrow> parse_digits a ys)"
  by (induction xs arbitrary: acc) (auto split: option.splits)

lemma parse_digits_dec: "parse_digits 0 (dec n) = Some (int n)"
proof (induction n rule: dec.induct)
  case (1 n)
  show ?case
  proof (cases "n < 10")
    case True
    then show ?thesis by (subst dec.simps) (simp add: digit_val_digit_char)
  next
    case False
    with 1 have "parse_digits 0 (dec (n div 10)) = Some (int (n div 10))" by simp
    with False show ?thesis
      by (subst dec.simps) (simp add: parse_digits_append digit_val_digit_char zdiv_int zmod_int)
  qed
qed

text \<open>What the constructor leaves of the client it is given, and the fields of the toy clients.\<close>

lemma constructor_fields:
  "player (constructor s) = player s"
  "client_options (constructor s) = client_options s"
  "ponder_read_count (constructor s) = ponder_read_count s"
  "ponder_limit_reached (constructor s) = ponder_limit_reached s"
  "ponder_duration (constructor s) = ponder_duration s"
  "ponder_time_limit (constructor s) = ponder_time_limit s"
  "ponder_type (constructor s) =
     (if ponder_limit (client_options s) > 0 then kReadLimited else ponder_type s)"
  by (simp_all add: constructor_def RegisterCmds_def RegisterCmd_def Let_def)

lemma toy_client_fields:
  "player (toy_client p) = p"
  "client_options (toy_client p) = \<lparr>ponder_limit = 0, courtesy_pass = False, tree_reuse = True\<rparr>"
  "ponder_type (toy_client p) = kOff"
  "ponder_read_count (toy_client p) = 0"
  "ponder_limit_reached (toy_client p) = False"
  "ponder_duration (toy_client p) = ZeroDuration"
  "ponder_time_limit (toy_client p) = InfinitePast"
  by (simp_all add: toy_client_def constructor_fields)

lemma toy_reading_fields:
  "player (toy_reading p limit n) = p"
  "client_options (toy_reading p limit n) =
     \<lparr>ponder_limit = limit, courtesy_pass = False, tree_reuse = True\<rparr>"
  "ponder_type (toy_reading p limit n) = kReadLimited"
  "ponder_read_count (toy_reading p limit n) = n"
  "ponder_limit_reached (toy_reading p limit n) = False"
  by (simp_all add: toy_reading_def toy_client_fields)

lemma toy_cmd_handlers:
  "cmd_handlers (toy_client p) =
     [(''benchmark'', BenchmarkCmd), (''boardsize'', BoardsizeCmd),
      (''clear_board'', ClearBoardCmd), (''final_score'', FinalScoreCmd),
      (''genmove'', GenmoveCmd), (''known_command'', KnownCommandCmd),
      (''komi'', KomiCmd), (''list_commands'', ListCommandsCmd),
      (''loadsgf'', LoadsgfCmd), (''name'', NameCmd), (''play'', PlayCmd),
      (''ponder'', PonderCmd), (''readouts'', ReadoutsCmd),
      (''showboard'', ShowboardCmd), (''undo'', UndoCmd)]"
  by (simp add: toy_client_def constructor_def RegisterCmds_def RegisterCmd_def)

lemma toy_env_fields:
  "Now toy_env = At 100"
  "Seconds toy_env (Finite q) = Ticks \<lfloor>q\<rfloor>"
  "SimpleAtof toy_env text = map_option (\<lambda>n. Finite (of_int n)) (SimpleAtoi text)"
  "kN toy_env = 19"
  "Coord_kPass toy_env = 361"
  "Coord_kInvalid toy_env = 65535"
  "ReadFile toy_env name = (if name = ''game.sgf'' then Some ''(;B[dq];W[dq])'' else None)"
  "Ast_Parse toy_env text = (text \<noteq> [])"
  "GetTrees toy_env text = Some [Node [\<lparr>move_color = kBlack, move_c = 3\<rparr>,
                                       \<lparr>move_color = kWhite, move_c = 3\<rparr>]]"
  "player_NewGame toy_env p = p\<lparr>session := \<lparr>moves = [], reads = 0\<rparr>\<rparr>"
  "PlayMove toy_env = toy_PlayMove"
  "SuggestMove toy_env n p = (361, p\<lparr>session := (session p)\<lparr>reads := reads (session p) + n\<rparr>\<rparr>)"
  "TreeSearch toy_env n cap p = p\<lparr>session := (session p)\<lparr>reads := reads (session p) + n\<rparr>\<rparr>"
  "root_N toy_env p = reads (session p)"
  "root_game_over toy_env = toy_over"
  "to_play toy_env p = (if even (length (moves (session p))) then kBlack else kWhite)"
  by (simp_all add: toy_env_def)

text \<open>In the toy environment a refused move and a refused undo leave the player as it was.\<close>

lemma toy_env_refusals:
  "PlayMove toy_env c p = (False, p') \<Longrightarrow> p' = p"
  "UndoMove toy_env p = (False, p') \<Longrightarrow> p' = p"
  by (auto simp add: toy_env_def toy_PlayMove_def split: if_splits)

lemma toy_client_player_update: "(toy_client p)\<lparr>player := q\<rparr> = toy_client q"
  by (simp add: toy_client_def constructor_def RegisterCmds_def RegisterCmd_def)

lemma toy_reading_cmd_handlers:
  "cmd_handlers (toy_reading p limit n) = cmd_handlers (toy_client p)"
  by (simp add: toy_reading_def)

lemma toy_reading_update:
  "(toy_reading p limit n)\<lparr>player := q, ponder_read_count := m\<rparr> = toy_reading q limit m"
  by (simp add: toy_reading_def toy_client_def constructor_def RegisterCmds_def RegisterCmd_def)

lemma args_shape:
  obtains (none) "args = []" | (one) a where "args = [a]" | (two) a b where "args = [a, b]"
    | (more) "2 < length args"
proof (cases args)
  case Nil
  then show ?thesis by (rule none)
next
  case (Cons a rest)
  show ?thesis
  proof (cases rest)
    case Nil
    with Cons show ?thesis by (simp add: one)
  next
    case (Cons b rest')
    with \<open>args = a # rest\<close> show ?thesis by (cases rest') (simp_all add: two more)
  qed
qed

lemmas SimpleAtoi_eval = SimpleAtoi_def StripAsciiWhitespace_def ascii_isspace_def digit_val_def

lemmas StrSplit_eval = StrSplit_def SkipWhitespace_def ascii_isspace_def is_delim_def

subsection \<open>The argument checks\<close>

text \<open>
  Claim C6. \<open>CheckArgsExact n args\<close> succeeds exactly when \<open>args\<close> has \<open>n\<close> elements,
  and otherwise fails with a message that gives the expected count, the actual count and
  the arguments. \<open>CheckArgsRange lo hi args\<close> succeeds exactly when the number of
  arguments lies between \<open>lo\<close> and \<open>hi\<close>, both included, and otherwise fails with a
  message that gives both bounds, the actual count and the arguments.
\<close>

theorem CheckArgs_accept_iff:
  "(ok (CheckArgsExact n args) \<longleftrightarrow> length args = n) \<and>
   (length args = n \<longrightarrow> CheckArgsExact n args = Response_Ok []) \<and>
   (length args \<noteq> n \<longrightarrow>
      CheckArgsExact n args =
        Response_Error (''expected '' @ dec n @ '' args, got '' @ dec (length args) @
                        '' args: '' @ StrJoin args '' '')) \<and>
   (ok (CheckArgsRange lo hi args) \<longleftrightarrow> lo \<le> length args \<and> length args \<le> hi) \<and>
   (lo \<le> length args \<and> length args \<le> hi \<longrightarrow> CheckArgsRange lo hi args = Response_Ok []) \<and>
   (\<not> (lo \<le> length args \<and> length args \<le> hi) \<longrightarrow>
      CheckArgsRange lo hi args =
        Response_Error (''expected between '' @ dec lo @ '' and '' @ dec hi @ '' args, got '' @
                        dec (length args) @ '' args: '' @ StrJoin args '' ''))"
  by (auto simp add: CheckArgsExact_def CheckArgsRange_def)

theorem CheckArgs_accept_iff_witness:
  "\<not> ok (CheckArgsExact 2 [''a'', ''b'', ''c'']) \<and>
   CheckArgsExact 2 [''a'', ''b'', ''c''] = Response_Error ''expected 2 args, got 3 args: a b c'' \<and>
   \<not> ok (CheckArgsRange 0 2 [''a'', ''b'', ''c'']) \<and>
   CheckArgsRange 0 2 [''a'', ''b'', ''c''] =
     Response_Error ''expected between 0 and 2 args, got 3 args: a b c'' \<and>
   ok (CheckArgsExact 3 [''a'', ''b'', ''c'']) \<and>
   ok (CheckArgsRange 3 3 [''a'', ''b'', ''c''])"
  using CheckArgs_accept_iff [of 2 "[''a'', ''b'', ''c'']" 0 2]
        CheckArgs_accept_iff [of 3 "[''a'', ''b'', ''c'']" 3 3]
  by (simp add: dec.simps digit_char_def)

subsection \<open>The ponder scheduler\<close>

text \<open>
  Claim C2. \<open>MaybePonder\<close> returns false and leaves the client as it is when the position
  at the root is terminal, the mode is off, or the limit has been reached. Otherwise, when
  the budget of the mode is spent (the read count has reached the limit under a read limit,
  the clock has reached the deadline under a time limit), it sets \<open>ponder_limit_reached\<close>,
  changes nothing else and returns false. Otherwise it runs one tree search, adds to the
  read count the reads the root gained in that search, and returns true.
\<close>

theorem MaybePonder_cases:
  "(root_game_over env (player s) \<or> ponder_type s = kOff \<or> ponder_limit_reached s \<longrightarrow>
      MaybePonder env s = (False, s)) \<and>
   (\<not> (root_game_over env (player s) \<or> ponder_type s = kOff \<or> ponder_limit_reached s) \<longrightarrow>
      ((ponder_type s = kReadLimited \<and> ponder_read_count s \<ge> ponder_limit (client_options s)) \<or>
       (ponder_type s = kTimeLimited \<and> time_ge (Now env) (ponder_time_limit s)) \<longrightarrow>
         MaybePonder env s = (False, s\<lparr>ponder_limit_reached := True\<rparr>)) \<and>
      (\<not> ((ponder_type s = kReadLimited \<and> ponder_read_count s \<ge> ponder_limit (client_options s)) \<or>
           (ponder_type s = kTimeLimited \<and> time_ge (Now env) (ponder_time_limit s))) \<longrightarrow>
         MaybePonder env s =
           (True,
            s\<lparr>player := TreeSearch env (virtual_losses (options (player s))) int_max (player s),
              ponder_read_count :=
                ponder_read_count s +
                (root_N env (TreeSearch env (virtual_losses (options (player s))) int_max (player s)) -
                 root_N env (player s))\<rparr>)))"
  by (simp add: MaybePonder_def Ponder_def Let_def)

theorem MaybePonder_cases_witness:
  "MaybePonder toy_env (toy_client (toy_player [] 0)) = (False, toy_client (toy_player [] 0)) \<and>
   MaybePonder toy_env (toy_reading (toy_player [] 0) 10 16) =
     (False, (toy_reading (toy_player [] 0) 10 16)\<lparr>ponder_limit_reached := True\<rparr>) \<and>
   MaybePonder toy_env (toy_reading (toy_player [] 0) 10 8) =
     (True, (toy_reading (toy_player [] 0) 10 8)
              \<lparr>player := toy_player [] 8, ponder_read_count := 16\<rparr>)"
  using MaybePonder_cases [of toy_env "toy_client (toy_player [] 0)"]
        MaybePonder_cases [of toy_env "toy_reading (toy_player [] 0) 10 16"]
        MaybePonder_cases [of toy_env "toy_reading (toy_player [] 0) 10 8"]
  by (simp add: toy_client_fields toy_reading_fields toy_env_def toy_over_def toy_player_def)

subsection \<open>Playing a move when the game is over\<close>

text \<open>
  Claim C9. Given two arguments, whatever they are, when the position at the root is
  terminal \<open>HandlePlay\<close> fails with the message "game is over" and leaves the client as
  it is: the colour and the coordinate are not looked at.
\<close>

theorem HandlePlay_game_over:
  assumes "length args = 2" and "root_game_over env (player s)"
  shows "HandlePlay env s args = Inr (Response_Error ''game is over'', s)"
  using assms by (simp add: HandlePlay_def CheckArgsExact_ok)

theorem HandlePlay_game_over_witness:
  "length [''x'', ''zz''] = 2 \<and>
   root_game_over toy_env (player (toy_client (toy_player [361, 361] 0))) \<and>
   HandlePlay toy_env (toy_client (toy_player [361, 361] 0)) [''x'', ''zz''] =
     Inr (Response_Error ''game is over'', toy_client (toy_player [361, 361] 0))"
proof -
  have over: "root_game_over toy_env (player (toy_client (toy_player [361, 361] 0)))"
    by (simp add: toy_client_fields toy_env_def toy_over_def toy_player_def)
  have len: "length [''x'', ''zz''] = 2" by simp
  from HandlePlay_game_over [OF len over] over show ?thesis by simp
qed

subsection \<open>The table of handlers and the list of commands\<close>

lemma RegisterCmds_Cons:
  "RegisterCmds ((cmd, handler) # regs) s = RegisterCmds regs (RegisterCmd cmd handler s)"
  by (simp add: RegisterCmds_def)

lemma RegisterCmds_keys:
  "fst ` set (cmd_handlers (RegisterCmds regs s)) = fst ` set regs \<union> fst ` set (cmd_handlers s)"
proof (induction regs arbitrary: s)
  case Nil
  show ?case by (simp add: RegisterCmds_def)
next
  case (Cons reg regs)
  obtain cmd handler where reg: "reg = (cmd, handler)" by (cases reg)
  show ?case
    unfolding reg RegisterCmds_Cons Cons.IH
    by (auto simp add: RegisterCmd_def dom_update)
qed

lemma RegisterCmds_distinct:
  "distinct (map fst (cmd_handlers s)) \<Longrightarrow> distinct (map fst (cmd_handlers (RegisterCmds regs s)))"
proof (induction regs arbitrary: s)
  case Nil
  then show ?case by (simp add: RegisterCmds_def)
next
  case (Cons reg regs)
  obtain cmd handler where reg: "reg = (cmd, handler)" by (cases reg)
  have "distinct (map fst (cmd_handlers (RegisterCmd cmd handler s)))"
    using Cons.prems by (simp add: RegisterCmd_def distinct_update)
  then show ?case
    unfolding reg RegisterCmds_Cons by (rule Cons.IH)
qed

lemma sort_distinct_keys:
  "distinct xs \<Longrightarrow> sort xs = sorted_list_of_set (set xs)"
  by (simp add: sorted_list_of_set_sort_remdups distinct_remdups_id)

lemma HandleListCommands_distinct:
  assumes "distinct (map fst (cmd_handlers s))"
  shows "HandleListCommands env s [] =
           Inr (Response_Ok (StrJoin (sorted_list_of_set (fst ` set (cmd_handlers s))) [CHR 0x0A]), s)"
  using assms
  by (simp add: HandleListCommands_def CheckArgsExact_def Let_def sort_distinct_keys Response_Ok_def)

text \<open>
  Claim C7. Called without arguments, \<open>HandleListCommands\<close> succeeds, and its body is
  the set of the names in the table, in lexicographic order, joined with line feeds. This
  holds for every table whose names are distinct, in whatever order the table is iterated;
  and so, for every list of registrations made on an empty table, the body is the sorted set
  of the names registered, whatever their order and however often a name is registered.
\<close>

theorem HandleListCommands_sorted_names:
  "(distinct (map fst (cmd_handlers s)) \<longrightarrow>
      HandleListCommands env s [] =
        Inr (Response_Ok (StrJoin (sorted_list_of_set (fst ` set (cmd_handlers s))) [CHR 0x0A]), s)) \<and>
   (cmd_handlers s = [] \<longrightarrow>
      HandleListCommands env (RegisterCmds regs s) [] =
        Inr (Response_Ok (StrJoin (sorted_list_of_set (fst ` set regs)) [CHR 0x0A]),
             RegisterCmds regs s))"
proof (intro conjI impI)
  assume "distinct (map fst (cmd_handlers s))"
  then show "HandleListCommands env s [] =
        Inr (Response_Ok (StrJoin (sorted_list_of_set (fst ` set (cmd_handlers s))) [CHR 0x0A]), s)"
    by (rule HandleListCommands_distinct)
next
  assume empty: "cmd_handlers s = []"
  then have "distinct (map fst (cmd_handlers (RegisterCmds regs s)))"
    by (intro RegisterCmds_distinct) simp
  from HandleListCommands_distinct [OF this]
  show "HandleListCommands env (RegisterCmds regs s) [] =
        Inr (Response_Ok (StrJoin (sorted_list_of_set (fst ` set regs)) [CHR 0x0A]),
             RegisterCmds regs s)"
    by (simp add: RegisterCmds_keys empty)
qed

theorem HandleListCommands_sorted_names_witness:
  "cmd_handlers ((toy_client (toy_player [] 0))\<lparr>cmd_handlers := []\<rparr>) = [] \<and>
   HandleListCommands toy_env
     (RegisterCmds [(''play'', PlayCmd), (''undo'', UndoCmd), (''name'', NameCmd), (''play'', BenchmarkCmd)]
        ((toy_client (toy_player [] 0))\<lparr>cmd_handlers := []\<rparr>)) [] =
   Inr (Response_Ok (''name'' @ [CHR 0x0A] @ ''play'' @ [CHR 0x0A] @ ''undo''),
        RegisterCmds [(''play'', PlayCmd), (''undo'', UndoCmd), (''name'', NameCmd), (''play'', BenchmarkCmd)]
        ((toy_client (toy_player [] 0))\<lparr>cmd_handlers := []\<rparr>))"
proof -
  let ?regs = "[(''play'', PlayCmd), (''undo'', UndoCmd), (''name'', NameCmd), (''play'', BenchmarkCmd)]"
  let ?s = "(toy_client (toy_player [] 0))\<lparr>cmd_handlers := []\<rparr>"
  have names: "sorted_list_of_set (fst ` set ?regs) = [''name'', ''play'', ''undo'']"
    by code_simp
  have empty: "cmd_handlers ?s = []" by simp
  with HandleListCommands_sorted_names [of ?s toy_env ?regs]
  have "HandleListCommands toy_env (RegisterCmds ?regs ?s) [] =
          Inr (Response_Ok (StrJoin (sorted_list_of_set (fst ` set ?regs)) [CHR 0x0A]),
               RegisterCmds ?regs ?s)"
    by blast
  with empty show ?thesis
    unfolding names by simp
qed

subsection \<open>A line that holds only a tag\<close>

text \<open>
  Claim C8 asks that the command name is read only when a token is left once the tag is
  stripped. It is not: on the line "1" the only token is taken as the tag and erased, and
  \<open>args[0]\<close> is then read from an empty vector.
\<close>

theorem HandleCmd_tag_only: "HandleCmd env s ''1'' = Inl OutOfRange"
  by (simp add: HandleCmd_def StrSplit_def SkipWhitespace_def ascii_isspace_def is_delim_def
        SimpleAtoi_def StripAsciiWhitespace_def digit_val_def)

text \<open>The same happens on every line whose only token parses as an integer.\<close>

lemma HandleCmd_tag_alone:
  "StrSplit line = [tag] \<Longrightarrow> SimpleAtoi tag \<noteq> None \<Longrightarrow> HandleCmd env s line = Inl OutOfRange"
  by (simp add: HandleCmd_def)

subsection \<open>The benchmark command\<close>

text \<open>
  Claim C5. \<open>HandleBenchmark\<close> always returns a response, and the options of the player
  after it are the options before it. When it fails it has changed nothing (the move
  generation was not reached). When it succeeds, the player is the one \<open>SuggestMove\<close>
  returned, with the saved options put back; \<open>SuggestMove\<close> was called once, on the
  player with the temporary options, which differ from the saved ones as the arguments say.
\<close>

theorem HandleBenchmark_restores_options:
  "(\<exists>r s'. HandleBenchmark env s args = Inr (r, s')) \<and>
   (\<forall>r s'. HandleBenchmark env s args = Inr (r, s') \<longrightarrow>
      options (player s') = options (player s) \<and>
      (\<not> ok r \<longrightarrow> s' = s) \<and>
      (ok r \<longrightarrow>
         (\<exists>temp_options.
            s' = s\<lparr>player :=
                     SetOptions (options (player s))
                       (snd (SuggestMove env (num_readouts temp_options)
                               (SetOptions temp_options (player s))))\<rparr> \<and>
            (args = [] \<longrightarrow> temp_options = options (player s)) \<and>
            (args \<noteq> [] \<longrightarrow>
               SimpleAtoi (args ! 0) = Some (num_readouts temp_options) \<and>
               seconds_per_move temp_options = Finite 0) \<and>
            (length args = 2 \<longrightarrow> SimpleAtoi (args ! 1) = Some (virtual_losses temp_options)) \<and>
            (length args < 2 \<longrightarrow>
               virtual_losses temp_options = virtual_losses (options (player s))))))"
proof -
  let ?saved = "options (player s)"
  show ?thesis
  proof (cases args rule: args_shape)
    case none
    then show ?thesis
      by (auto simp add: HandleBenchmark_def Let_def SetOptions_def CheckArgsRange_ok
               intro!: exI [of _ "?saved"])
  next
    case (one a)
    show ?thesis
    proof (cases "SimpleAtoi a")
      case None
      with one show ?thesis
        by (simp add: HandleBenchmark_def Let_def CheckArgsRange_ok)
    next
      case (Some n)
      with one show ?thesis
        by (auto simp add: HandleBenchmark_def Let_def SetOptions_def CheckArgsRange_ok
                 intro!: exI [of _ "?saved\<lparr>seconds_per_move := Finite 0, num_readouts := n\<rparr>"])
    qed
  next
    case (two a b)
    show ?thesis
    proof (cases "SimpleAtoi a")
      case None
      with two show ?thesis
        by (simp add: HandleBenchmark_def Let_def CheckArgsRange_ok)
    next
      case n: (Some n)
      show ?thesis
      proof (cases "SimpleAtoi b")
        case None
        with two n show ?thesis
          by (simp add: HandleBenchmark_def Let_def CheckArgsRange_ok)
      next
        case (Some v)
        with two n show ?thesis
          by (auto simp add: HandleBenchmark_def Let_def SetOptions_def CheckArgsRange_ok
                   intro!: exI [of _ "?saved\<lparr>seconds_per_move := Finite 0, num_readouts := n,
                                             virtual_losses := v\<rparr>"])
      qed
    qed
  next
    case more
    then show ?thesis
      by (simp add: HandleBenchmark_def Let_def CheckArgsRange_def)
  qed
qed

theorem HandleBenchmark_restores_options_witness:
  "HandleBenchmark toy_env (toy_client (toy_player [] 0)) [''10'', ''2''] =
     Inr (Response_Ok [], (toy_client (toy_player [] 0))\<lparr>player := toy_player [] 10\<rparr>) \<and>
   options (player ((toy_client (toy_player [] 0))\<lparr>player := toy_player [] 10\<rparr>)) =
     options (player (toy_client (toy_player [] 0)))"
proof -
  let ?c = "toy_client (toy_player [] 0)"
  have run: "HandleBenchmark toy_env ?c [''10'', ''2''] =
               Inr (Response_Ok [], ?c\<lparr>player := toy_player [] 10\<rparr>)"
    by (simp add: HandleBenchmark_def CheckArgsRange_def Let_def toy_client_fields toy_env_def
          toy_player_def SetOptions_def SimpleAtoi_eval)
  with HandleBenchmark_restores_options [of toy_env ?c "[''10'', ''2'']"]
  have "options (player (?c\<lparr>player := toy_player [] 10\<rparr>)) = options (player ?c)"
    by blast
  with run show ?thesis by simp
qed

subsection \<open>Failure and the state of the client\<close>

lemma cmd_id_factories [simp]:
  "cmd_id (Response_Ok body) = None"
  "cmd_id (Response_Error msg) = None"
  "cmd_id Response_Done = None"
  "cmd_id (CheckArgsExact n args) = None"
  "cmd_id (CheckArgsRange lo hi args) = None"
  by (simp_all add: Response_Ok_def Response_Error_def Response_Done_def CheckArgsExact_def
        CheckArgsRange_def)

lemma replay_moves_cmd_id: "replay_moves env ms p = (r, p') \<Longrightarrow> cmd_id r = None"
  by (induction ms arbitrary: p) (auto split: prod.splits if_splits)

text \<open>A failed replay stopped at the first move the player refused.\<close>

lemma replay_moves_failure:
  "replay_moves env ms p = (r, p') \<Longrightarrow> \<not> ok r \<Longrightarrow>
     r = Response_Error ''Cannot load file'' \<and>
     (\<exists>pre m post p1. ms = pre @ m # post \<and>
        replay_moves env pre p = (Response_Ok [], p1) \<and>
        PlayMove env (move_c m) p1 = (False, p'))"
proof (induction ms arbitrary: p)
  case Nil
  then show ?case by auto
next
  case (Cons m ms)
  obtain played p1 where step: "PlayMove env (move_c m) p = (played, p1)"
    by (cases "PlayMove env (move_c m) p")
  show ?case
  proof (cases played)
    case False
    with Cons.prems step have "r = Response_Error ''Cannot load file''" and "p' = p1"
      by simp_all
    with False step show ?thesis
      by (intro conjI exI [of _ "[]"] exI [of _ m] exI [of _ ms] exI [of _ p]) simp_all
  next
    case True
    with Cons.prems step have rest: "replay_moves env ms p1 = (r, p')" by simp
    from Cons.IH [OF rest Cons.prems(2)]
    obtain pre m' post p2 where r: "r = Response_Error ''Cannot load file''"
      and ms: "ms = pre @ m' # post"
      and pre: "replay_moves env pre p1 = (Response_Ok [], p2)"
      and last: "PlayMove env (move_c m') p2 = (False, p')"
      by blast
    from True step pre have "replay_moves env (m # pre) p = (Response_Ok [], p2)" by simp
    with r ms last show ?thesis
      by (intro conjI exI [of _ "m # pre"] exI [of _ m'] exI [of _ post] exI [of _ p2]) simp_all
  qed
qed

lemma simple_handlers:
  "HandleBenchmark env s args = Inr (r, s') \<Longrightarrow> cmd_id r = None \<and> (\<not> ok r \<longrightarrow> s' = s)"
  "HandleBoardsize env s args = Inr (r, s') \<Longrightarrow> cmd_id r = None \<and> (\<not> ok r \<longrightarrow> s' = s)"
  "HandleClearBoard env s args = Inr (r, s') \<Longrightarrow> cmd_id r = None \<and> (\<not> ok r \<longrightarrow> s' = s)"
  "HandleFinalScore env s args = Inr (r, s') \<Longrightarrow> cmd_id r = None \<and> (\<not> ok r \<longrightarrow> s' = s)"
  "HandleKnownCommand env s args = Inr (r, s') \<Longrightarrow> cmd_id r = None \<and> (\<not> ok r \<longrightarrow> s' = s)"
  "HandleKomi env s args = Inr (r, s') \<Longrightarrow> cmd_id r = None \<and> (\<not> ok r \<longrightarrow> s' = s)"
  "HandleListCommands env s args = Inr (r, s') \<Longrightarrow> cmd_id r = None \<and> (\<not> ok r \<longrightarrow> s' = s)"
  "HandleName env s args = Inr (r, s') \<Longrightarrow> cmd_id r = None \<and> (\<not> ok r \<longrightarrow> s' = s)"
  "HandleReadouts env s args = Inr (r, s') \<Longrightarrow> cmd_id r = None \<and> (\<not> ok r \<longrightarrow> s' = s)"
  "HandleShowboard env s args = Inr (r, s') \<Longrightarrow> cmd_id r = None \<and> (\<not> ok r \<longrightarrow> s' = s)"
  by (auto simp add: HandleBenchmark_def HandleBoardsize_def HandleClearBoard_def
        HandleFinalScore_def HandleKnownCommand_def HandleKomi_def HandleListCommands_def
        HandleName_def HandleReadouts_def HandleShowboard_def Let_def
        split: option.splits if_splits)

lemma HandleGenmove_frame:
  "HandleGenmove env s args = Inr (r, s') \<Longrightarrow> cmd_id r = None \<and> (\<not> ok r \<longrightarrow> s' = s)"
  by (auto simp add: HandleGenmove_def Let_def split: option.splits if_splits prod.splits)

lemma HandlePonder_frame:
  "HandlePonder env s args = Inr (r, s') \<Longrightarrow> cmd_id r = None \<and> (\<not> ok r \<longrightarrow> s' = s)"
  by (auto simp add: HandlePonder_def Let_def split: option.splits if_splits)

lemma HandlePlay_frame:
  "HandlePlay env s args = Inr (r, s') \<Longrightarrow>
     cmd_id r = None \<and>
     (\<not> ok r \<longrightarrow> s' = s \<or>
        (r = Response_Error ''illegal move'' \<and> s' = s\<lparr>player := player s'\<rparr> \<and>
         PlayMove env (Coord_FromGtp env (args ! 1) True) (player s) = (False, player s')))"
  by (auto simp add: HandlePlay_def Let_def split: option.splits if_splits prod.splits list.splits)

lemma HandleUndo_frame:
  "HandleUndo env s args = Inr (r, s') \<Longrightarrow>
     cmd_id r = None \<and>
     (\<not> ok r \<longrightarrow> s' = s \<or>
        (r = Response_Error ''cannot undo'' \<and> s' = s\<lparr>player := player s'\<rparr> \<and>
         UndoMove env (player s) = (False, player s')))"
  by (auto simp add: HandleUndo_def Let_def split: option.splits if_splits prod.splits)

lemma ReplaySgf_frame:
  assumes "ReplaySgf env trees s = (r, s')"
  shows "cmd_id r = None"
    and "\<not> ok r \<Longrightarrow>
           r = Response_Error ''Cannot load file'' \<and> s' = s\<lparr>player := player s'\<rparr> \<and>
           (\<exists>tree rest pre m post p1. trees = tree # rest \<and>
              ExtractMainLine tree = pre @ m # post \<and>
              replay_moves env pre (player s) = (Response_Ok [], p1) \<and>
              PlayMove env (move_c m) p1 = (False, player s'))"
proof -
  show "cmd_id r = None"
    using assms
    by (auto simp add: ReplaySgf_def split: list.splits prod.splits dest: replay_moves_cmd_id)
next
  assume fail: "\<not> ok r"
  with assms obtain tree rest where trees: "trees = tree # rest"
    by (cases trees) (auto simp add: ReplaySgf_def)
  obtain p where run: "replay_moves env (ExtractMainLine tree) (player s) = (r, p)"
    and s': "s' = s\<lparr>player := p\<rparr>"
    using assms trees by (auto simp add: ReplaySgf_def split: prod.splits)
  from replay_moves_failure [OF run fail] trees s'
  show "r = Response_Error ''Cannot load file'' \<and> s' = s\<lparr>player := player s'\<rparr> \<and>
           (\<exists>tree rest pre m post p1. trees = tree # rest \<and>
              ExtractMainLine tree = pre @ m # post \<and>
              replay_moves env pre (player s) = (Response_Ok [], p1) \<and>
              PlayMove env (move_c m) p1 = (False, player s'))"
    by auto
qed


lemma HandleLoadsgf_frame:
  assumes "HandleLoadsgf env s args = Inr (r, s')"
  shows "cmd_id r = None"
    and "\<not> ok r \<Longrightarrow>
           s' = s \<or>
           (r = Response_Error ''Cannot load file'' \<and>
            s' = (NewGame env s)\<lparr>player := player s'\<rparr> \<and>
            (\<exists>contents tree rest pre m post p1.
               ReadFile env (args ! 0) = Some contents \<and>
               GetTrees env contents = Some (tree # rest) \<and>
               ExtractMainLine tree = pre @ m # post \<and>
               replay_moves env pre (player (NewGame env s)) = (Response_Ok [], p1) \<and>
               PlayMove env (move_c m) p1 = (False, player s')))"
proof -
  show "cmd_id r = None"
    using assms
    by (auto simp add: HandleLoadsgf_def ParseSgf_def Let_def
             split: option.splits if_splits prod.splits dest: ReplaySgf_frame(1))
next
  assume fail: "\<not> ok r"
  show "s' = s \<or>
           (r = Response_Error ''Cannot load file'' \<and>
            s' = (NewGame env s)\<lparr>player := player s'\<rparr> \<and>
            (\<exists>contents tree rest pre m post p1.
               ReadFile env (args ! 0) = Some contents \<and>
               GetTrees env contents = Some (tree # rest) \<and>
               ExtractMainLine tree = pre @ m # post \<and>
               replay_moves env pre (player (NewGame env s)) = (Response_Ok [], p1) \<and>
               PlayMove env (move_c m) p1 = (False, player s')))"
  proof (cases "s' = s")
    case True
    then show ?thesis by simp
  next
    case False
    with assms fail obtain contents trees
      where rd: "ReadFile env (args ! 0) = Some contents"
        and trees: "GetTrees env contents = Some trees"
        and replay: "ReplaySgf env trees (NewGame env s) = (r, s')"
      by (auto simp add: HandleLoadsgf_def ParseSgf_def Let_def
               split: option.splits if_splits prod.splits)
    from ReplaySgf_frame(2) [OF replay fail] rd trees show ?thesis
      by auto
  qed
qed

lemma call_handler_cmd_id: "call_handler h env s args = Inr (r, s') \<Longrightarrow> cmd_id r = None"
  by (cases h)
     (auto dest: simple_handlers HandleGenmove_frame HandlePonder_frame HandlePlay_frame
        HandleUndo_frame HandleLoadsgf_frame(1))

lemma DispatchCmd_cmd_id: "DispatchCmd env s cmd args = Inr (r, s') \<Longrightarrow> cmd_id r = None"
  by (auto simp add: DispatchCmd_def split: option.splits dest: call_handler_cmd_id)

subsection \<open>The tag of a command\<close>

text \<open>When \<open>HandleCmd\<close> stops on a fault instead of returning a response.\<close>

lemma HandleCmd_fault:
  assumes "HandleCmd env s line = Inl f"
  shows "(\<exists>tag. StrSplit line = [tag] \<and> SimpleAtoi tag \<noteq> None \<and> f = OutOfRange) \<or>
         (\<exists>cmd args h. map_of (cmd_handlers s) cmd = Some h \<and> call_handler h env s args = Inl f)"
  using assms
  by (auto simp add: HandleCmd_def Let_def DispatchCmd_def
           split: list.splits if_splits sum.splits option.splits prod.splits)

text \<open>
  Claim C4. Whatever response \<open>HandleCmd\<close> returns for a line, its \<open>cmd_id\<close> is the
  integer the first token parses as, and none when the line has no token or the first token
  is not an integer. In particular the response of "quit" and the response to an unknown
  command are returned, with the tag when the line has one and without it otherwise. No
  response is returned in two cases only: the line holds a tag and nothing else, or the
  handler that is called stops on a fault.
\<close>

theorem HandleCmd_echoes_cmd_id:
  "(\<forall>r s'. HandleCmd env s line = Inr (r, s') \<longrightarrow>
      cmd_id r = (case StrSplit line of [] \<Rightarrow> None | first # _ \<Rightarrow> SimpleAtoi first)) \<and>
   (\<forall>first cmd args.
      StrSplit line = first # cmd # args \<and> SimpleAtoi first \<noteq> None \<and> cmd = ''quit'' \<longrightarrow>
        HandleCmd env s line = Inr (Response_Done\<lparr>cmd_id := SimpleAtoi first\<rparr>, s)) \<and>
   (\<forall>first cmd args.
      StrSplit line = first # cmd # args \<and> SimpleAtoi first \<noteq> None \<and> cmd \<noteq> ''quit'' \<and>
      map_of (cmd_handlers s) cmd = None \<longrightarrow>
        HandleCmd env s line =
          Inr ((Response_Error ''unknown command'')\<lparr>cmd_id := SimpleAtoi first\<rparr>, s)) \<and>
   (\<forall>cmd args.
      StrSplit line = cmd # args \<and> SimpleAtoi cmd = None \<and> cmd = ''quit'' \<longrightarrow>
        HandleCmd env s line = Inr (Response_Done, s)) \<and>
   (\<forall>cmd args.
      StrSplit line = cmd # args \<and> SimpleAtoi cmd = None \<and> cmd \<noteq> ''quit'' \<and>
      map_of (cmd_handlers s) cmd = None \<longrightarrow>
        HandleCmd env s line = Inr (Response_Error ''unknown command'', s)) \<and>
   (\<forall>f. HandleCmd env s line = Inl f \<longrightarrow>
      (\<exists>tag. StrSplit line = [tag] \<and> SimpleAtoi tag \<noteq> None \<and> f = OutOfRange) \<or>
      (\<exists>cmd args h. map_of (cmd_handlers s) cmd = Some h \<and>
         call_handler h env s args = Inl f))"
proof (intro conjI allI impI)
  fix r s'
  assume run: "HandleCmd env s line = Inr (r, s')"
  show "cmd_id r = (case StrSplit line of [] \<Rightarrow> None | first # _ \<Rightarrow> SimpleAtoi first)"
  proof (cases "StrSplit line")
    case Nil
    with run show ?thesis by (auto simp add: HandleCmd_def)
  next
    case (Cons first others)
    with run show ?thesis
      by (auto simp add: HandleCmd_def Let_def set_cmd_id_def
               split: list.splits if_splits sum.splits option.splits
               dest: DispatchCmd_cmd_id)
  qed
next
  fix f
  assume "HandleCmd env s line = Inl f"
  then show "(\<exists>tag. StrSplit line = [tag] \<and> SimpleAtoi tag \<noteq> None \<and> f = OutOfRange) \<or>
      (\<exists>cmd args h. map_of (cmd_handlers s) cmd = Some h \<and>
         call_handler h env s args = Inl f)"
    by (rule HandleCmd_fault)
qed (auto simp add: HandleCmd_def Let_def set_cmd_id_def DispatchCmd_def)

theorem HandleCmd_echoes_cmd_id_witness:
  "HandleCmd toy_env (toy_client (toy_player [] 0)) ''1 known_command genmove'' =
     Inr ((Response_Ok ''true'')\<lparr>cmd_id := Some 1\<rparr>, toy_client (toy_player [] 0)) \<and>
   cmd_id ((Response_Ok ''true'')\<lparr>cmd_id := Some 1\<rparr>) = (case StrSplit ''1 known_command genmove'' of [] \<Rightarrow> None | first # _ \<Rightarrow> SimpleAtoi first) \<and>
   HandleCmd toy_env (toy_client (toy_player [] 0)) ''known_command genmove'' =
     Inr (Response_Ok ''true'', toy_client (toy_player [] 0)) \<and>
   HandleCmd toy_env (toy_client (toy_player [] 0)) ''12 quit'' =
     Inr (Response_Done\<lparr>cmd_id := Some 12\<rparr>, toy_client (toy_player [] 0)) \<and>
   HandleCmd toy_env (toy_client (toy_player [] 0)) ''-3 pounder'' =
     Inr ((Response_Error ''unknown command'')\<lparr>cmd_id := Some (-3)\<rparr>, toy_client (toy_player [] 0))"
proof -
  let ?c = "toy_client (toy_player [] 0)"
  have run: "HandleCmd toy_env ?c ''1 known_command genmove'' =
               Inr ((Response_Ok ''true'')\<lparr>cmd_id := Some 1\<rparr>, ?c)"
    by (simp add: HandleCmd_def StrSplit_eval SimpleAtoi_eval DispatchCmd_def toy_cmd_handlers
          HandleKnownCommand_def CheckArgsExact_def set_cmd_id_def)
  have plain: "HandleCmd toy_env ?c ''known_command genmove'' = Inr (Response_Ok ''true'', ?c)"
    by (simp add: HandleCmd_def StrSplit_eval SimpleAtoi_eval DispatchCmd_def toy_cmd_handlers
          HandleKnownCommand_def CheckArgsExact_def set_cmd_id_def)
  have quit: "StrSplit ''12 quit'' = [''12'', ''quit'']" and quit_id: "SimpleAtoi ''12'' = Some 12"
    and unknown: "StrSplit ''-3 pounder'' = [''-3'', ''pounder'']"
    and unknown_id: "SimpleAtoi ''-3'' = Some (-3)"
    and absent: "map_of (cmd_handlers ?c) ''pounder'' = None"
    by (simp_all add: StrSplit_eval SimpleAtoi_eval toy_cmd_handlers)
  have tagged: "cmd_id ((Response_Ok ''true'')\<lparr>cmd_id := Some 1\<rparr>) =
      (case StrSplit ''1 known_command genmove'' of [] \<Rightarrow> None | first # _ \<Rightarrow> SimpleAtoi first)"
    using HandleCmd_echoes_cmd_id [of toy_env ?c "''1 known_command genmove''",
            THEN conjunct1, rule_format, OF run] .
  have quit_run: "HandleCmd toy_env ?c ''12 quit'' = Inr (Response_Done\<lparr>cmd_id := Some 12\<rparr>, ?c)"
    using HandleCmd_echoes_cmd_id [of toy_env ?c "''12 quit''",
            THEN conjunct2, THEN conjunct1, rule_format, of "''12''" "''quit''" "[]"]
          quit quit_id
    by simp
  have unknown_run: "HandleCmd toy_env ?c ''-3 pounder'' =
          Inr ((Response_Error ''unknown command'')\<lparr>cmd_id := Some (-3)\<rparr>, ?c)"
    using HandleCmd_echoes_cmd_id [of toy_env ?c "''-3 pounder''",
            THEN conjunct2, THEN conjunct2, THEN conjunct1, rule_format,
            of "''-3''" "''pounder''" "[]"]
          unknown unknown_id absent
    by simp
  from run tagged plain quit_run unknown_run show ?thesis
    by (intro conjI)
qed

subsection \<open>What a failed handler leaves behind\<close>

text \<open>
  Claim C1 says that a handler that fails leaves the session as it was. \<open>HandleLoadsgf\<close>
  does not: it starts a new game before it replays the record, and a move the player
  refuses ends the replay with the failure "Cannot load file" and the session holding the
  new game and the moves replayed so far. In the toy environment a game with the move 7 is
  replaced by a game with the move 3.
\<close>

theorem HandleLoadsgf_failure_counterexample:
  "call_handler LoadsgfCmd toy_env (toy_client (toy_player [7] 0)) [''game.sgf''] =
     Inr (Response_Error ''Cannot load file'', toy_client (toy_player [3] 0)) \<and>
   \<not> ok (Response_Error ''Cannot load file'') \<and>
   player (toy_client (toy_player [3] 0)) \<noteq> player (toy_client (toy_player [7] 0))"
  by (simp add: HandleLoadsgf_def CheckArgsExact_def ParseSgf_def ReplaySgf_def NewGame_def
        MaybeStartPondering_def toy_client_fields toy_env_fields toy_PlayMove_def toy_player_def
        toy_client_player_update Let_def)

text \<open>
  Claim C1, amended. Let every call of \<open>PlayMove\<close> and of \<open>UndoMove\<close> that returns
  false leave the player as it was. Then a handler that returns a failure leaves the whole
  client as it was, with one exception: when \<open>HandleLoadsgf\<close> fails during the replay
  ("Cannot load file"), the client is the one \<open>NewGame\<close> made, with the moves of the
  main line before the refused one played.
\<close>

theorem handler_failure_state:
  assumes run: "call_handler h env s args = Inr (r, s')" and fail: "\<not> ok r"
    and play_refused: "\<And>c p p'. PlayMove env c p = (False, p') \<Longrightarrow> p' = p"
    and undo_refused: "\<And>p p'. UndoMove env p = (False, p') \<Longrightarrow> p' = p"
  shows "s' = s \<or>
         (h = LoadsgfCmd \<and> r = Response_Error ''Cannot load file'' \<and>
          s' = (NewGame env s)\<lparr>player := player s'\<rparr> \<and>
          (\<exists>contents tree rest pre m post.
             ReadFile env (args ! 0) = Some contents \<and>
             GetTrees env contents = Some (tree # rest) \<and>
             ExtractMainLine tree = pre @ m # post \<and>
             replay_moves env pre (player (NewGame env s)) = (Response_Ok [], player s') \<and>
             PlayMove env (move_c m) (player s') = (False, player s')))"
proof (cases h)
  case PlayCmd
  with run have "HandlePlay env s args = Inr (r, s')" by simp
  from HandlePlay_frame [OF this] fail
  have "s' = s \<or> (s' = s\<lparr>player := player s'\<rparr> \<and>
          PlayMove env (Coord_FromGtp env (args ! 1) True) (player s) = (False, player s'))"
    by blast
  then have "s' = s"
  proof
    assume "s' = s\<lparr>player := player s'\<rparr> \<and>
          PlayMove env (Coord_FromGtp env (args ! 1) True) (player s) = (False, player s')"
    then have upd: "s' = s\<lparr>player := player s'\<rparr>" and "player s' = player s"
      using play_refused by blast+
    then show "s' = s" by simp
  qed
  then show ?thesis by simp
next
  case UndoCmd
  with run have "HandleUndo env s args = Inr (r, s')" by simp
  from HandleUndo_frame [OF this] fail
  have "s' = s \<or> (s' = s\<lparr>player := player s'\<rparr> \<and> UndoMove env (player s) = (False, player s'))"
    by blast
  then have "s' = s"
  proof
    assume "s' = s\<lparr>player := player s'\<rparr> \<and> UndoMove env (player s) = (False, player s')"
    then have upd: "s' = s\<lparr>player := player s'\<rparr>" and "player s' = player s"
      using undo_refused by blast+
    then show "s' = s" by simp
  qed
  then show ?thesis by simp
next
  case LoadsgfCmd
  with run have "HandleLoadsgf env s args = Inr (r, s')" by simp
  from HandleLoadsgf_frame(2) [OF this fail]
  show ?thesis
  proof
    assume "s' = s"
    then show ?thesis by simp
  next
    assume "r = Response_Error ''Cannot load file'' \<and>
            s' = (NewGame env s)\<lparr>player := player s'\<rparr> \<and>
            (\<exists>contents tree rest pre m post p1.
               ReadFile env (args ! 0) = Some contents \<and>
               GetTrees env contents = Some (tree # rest) \<and>
               ExtractMainLine tree = pre @ m # post \<and>
               replay_moves env pre (player (NewGame env s)) = (Response_Ok [], p1) \<and>
               PlayMove env (move_c m) p1 = (False, player s'))"
    then obtain contents tree rest pre m post p1
      where r: "r = Response_Error ''Cannot load file''"
        and s': "s' = (NewGame env s)\<lparr>player := player s'\<rparr>"
        and rd: "ReadFile env (args ! 0) = Some contents"
        and trees: "GetTrees env contents = Some (tree # rest)"
        and line: "ExtractMainLine tree = pre @ m # post"
        and pre: "replay_moves env pre (player (NewGame env s)) = (Response_Ok [], p1)"
        and refused: "PlayMove env (move_c m) p1 = (False, player s')"
      by blast
    from play_refused [OF refused] have p1: "p1 = player s'" by simp
    from LoadsgfCmd r s' rd trees line pre [unfolded p1] refused [unfolded p1]
    show ?thesis by blast
  qed
next
  case GenmoveCmd
  with run fail HandleGenmove_frame [of env s args r s'] show ?thesis by auto
next
  case PonderCmd
  with run fail HandlePonder_frame [of env s args r s'] show ?thesis by auto
qed (use run fail in \<open>auto dest: simple_handlers\<close>)

theorem handler_failure_state_witness:
  "call_handler LoadsgfCmd toy_env (toy_client (toy_player [7] 0)) [''game.sgf''] =
     Inr (Response_Error ''Cannot load file'', toy_client (toy_player [3] 0)) \<and>
   \<not> ok (Response_Error ''Cannot load file'') \<and>
   toy_client (toy_player [3] 0) =
     (NewGame toy_env (toy_client (toy_player [7] 0)))\<lparr>player := toy_player [3] 0\<rparr> \<and>
   PlayMove toy_env 3 (toy_player [3] 0) = (False, toy_player [3] 0) \<and>
   call_handler PlayCmd toy_env (toy_client (toy_player [7] 0)) [''w'', ''7''] =
     Inr (Response_Error ''illegal move'', toy_client (toy_player [7] 0)) \<and>
   call_handler UndoCmd toy_env (toy_client (toy_player [] 0)) [] =
     Inr (Response_Error ''cannot undo'', toy_client (toy_player [] 0))"
proof -
  let ?c = "toy_client (toy_player [7] 0)"
  let ?c' = "toy_client (toy_player [3] 0)"
  have run: "call_handler LoadsgfCmd toy_env ?c [''game.sgf''] =
               Inr (Response_Error ''Cannot load file'', ?c')"
    by (simp add: HandleLoadsgf_def CheckArgsExact_def ParseSgf_def ReplaySgf_def NewGame_def
          MaybeStartPondering_def toy_client_fields toy_env_fields toy_PlayMove_def toy_player_def
          toy_client_player_update Let_def)
  have fail: "\<not> ok (Response_Error msg)" for msg by simp
  have diff: "?c' \<noteq> ?c"
  proof
    assume "?c' = ?c"
    then have "player ?c' = player ?c" by simp
    then show False by (simp add: toy_client_fields toy_player_def)
  qed
  from handler_failure_state [OF run fail toy_env_refusals] diff
  have replaced: "?c' = (NewGame toy_env ?c)\<lparr>player := player ?c'\<rparr>" by simp
  have refused: "PlayMove toy_env 3 (toy_player [3] 0) = (False, toy_player [3] 0)"
    by (simp add: toy_env_fields toy_PlayMove_def toy_player_def)
  obtain r1 s1 where play: "call_handler PlayCmd toy_env ?c [''w'', ''7''] = Inr (r1, s1)"
    and r1: "r1 = Response_Error ''illegal move''"
    by (simp add: HandlePlay_def CheckArgsExact_def toy_client_fields toy_env_fields
          toy_env_def toy_over_def toy_PlayMove_def toy_player_def tolower_def SimpleAtoi_eval Let_def)
  from handler_failure_state [OF play _ toy_env_refusals] r1
  have "s1 = ?c" by simp
  with play r1 have play_run: "call_handler PlayCmd toy_env ?c [''w'', ''7''] =
     Inr (Response_Error ''illegal move'', ?c)" by simp
  obtain r2 s2 where undo: "call_handler UndoCmd toy_env (toy_client (toy_player [] 0)) [] = Inr (r2, s2)"
    and r2: "r2 = Response_Error ''cannot undo''"
    by (simp add: HandleUndo_def CheckArgsExact_def toy_client_fields toy_env_def toy_player_def)
  from handler_failure_state [OF undo _ toy_env_refusals] r2
  have "s2 = toy_client (toy_player [] 0)" by simp
  with undo r2 have undo_run: "call_handler UndoCmd toy_env (toy_client (toy_player [] 0)) [] =
     Inr (Response_Error ''cannot undo'', toy_client (toy_player [] 0))" by simp
  from run fail replaced refused play_run undo_run show ?thesis
    by (simp add: toy_client_fields)
qed

subsection \<open>The ponder command\<close>





subsection \<open>The read count of the scheduler\<close>

text \<open>
  A new game and a move generated re-arm the scheduler through \<open>MaybeStartPondering\<close>,
  which sets the read count to zero in both limited modes; "ponder reads N" sets it to zero
  too; and each \<open>Ponder\<close> adds what the root gained.
\<close>

lemma MaybeStartPondering_read_count:
  "ponder_type s \<noteq> kOff \<Longrightarrow>
     ponder_read_count (MaybeStartPondering env s) = 0 \<and>
     \<not> ponder_limit_reached (MaybeStartPondering env s)"
  by (simp add: MaybeStartPondering_def Let_def)

lemma NewGame_read_count:
  "ponder_type s \<noteq> kOff \<Longrightarrow> ponder_read_count (NewGame env s) = 0"
  by (simp add: NewGame_def MaybeStartPondering_def Let_def)

lemma Ponder_read_count:
  "ponder_read_count (Ponder env s) =
     ponder_read_count s + (root_N env (player (Ponder env s)) - root_N env (player s))"
  by (simp add: Ponder_def Let_def)

lemma HandlePonder_reads_read_count:
  "HandlePonder env s [''reads'', n] = Inr (r, s') \<Longrightarrow> ok r \<Longrightarrow> ponder_read_count s' = 0"
  by (auto simp add: HandlePonder_def Let_def CheckArgsRange_def CheckArgsExact_def
           split: option.splits if_splits)

lemma HandlePonder_time_read_count:
  "HandlePonder env s [''time'', t] = Inr (r, s') \<Longrightarrow>
     ponder_read_count s' = ponder_read_count s"
  by (auto simp add: HandlePonder_def Let_def CheckArgsRange_def CheckArgsExact_def
           split: option.splits if_splits)

text \<open>
  Claim C10 asks that the read count is zero after every arming. "ponder time T" arms the
  time-limited mode and leaves the read count as it was: after "ponder reads 100" and one
  search of 8 reads, "ponder time 5" arms with a read count of 8.
\<close>

theorem ponder_time_keeps_read_count:
  "HandleCmd toy_env (toy_client (toy_player [] 0)) ''ponder reads 100'' =
     Inr (Response_Ok [], toy_reading (toy_player [] 0) 100 0) \<and>
   MaybePonder toy_env (toy_reading (toy_player [] 0) 100 0) =
     (True, toy_reading (toy_player [] 8) 100 8) \<and>
   HandleCmd toy_env (toy_reading (toy_player [] 8) 100 8) ''ponder time 5'' =
     Inr (Response_Ok [],
          (toy_reading (toy_player [] 8) 100 8)
            \<lparr>ponder_type := kTimeLimited,
             ponder_duration := Ticks 5,
             ponder_time_limit := At 105,
             ponder_limit_reached := False\<rparr>) \<and>
   ponder_read_count
     ((toy_reading (toy_player [] 8) 100 8)
        \<lparr>ponder_type := kTimeLimited,
         ponder_duration := Ticks 5,
         ponder_time_limit := At 105,
         ponder_limit_reached := False\<rparr>) = 8"
proof -
  have reads: "HandleCmd toy_env (toy_client (toy_player [] 0)) ''ponder reads 100'' =
     Inr (Response_Ok [], toy_reading (toy_player [] 0) 100 0)"
    by (simp add: HandleCmd_def StrSplit_eval SimpleAtoi_eval DispatchCmd_def toy_cmd_handlers
          HandlePonder_def CheckArgsRange_def CheckArgsExact_def toy_reading_def toy_client_fields)
  have "MaybePonder toy_env (toy_reading (toy_player [] 0) 100 0) =
     (True, (toy_reading (toy_player [] 0) 100 0)
              \<lparr>player := toy_player [] 8, ponder_read_count := 8\<rparr>)"
    by (simp add: MaybePonder_def Ponder_def toy_reading_fields toy_env_fields toy_over_def
          toy_player_def Let_def)
  then have tick: "MaybePonder toy_env (toy_reading (toy_player [] 0) 100 0) =
     (True, toy_reading (toy_player [] 8) 100 8)"
    by (simp only: toy_reading_update)
  have time: "HandleCmd toy_env (toy_reading (toy_player [] 8) 100 8) ''ponder time 5'' =
     Inr (Response_Ok [],
          (toy_reading (toy_player [] 8) 100 8)
            \<lparr>ponder_type := kTimeLimited,
             ponder_duration := Ticks 5,
             ponder_time_limit := At 105,
             ponder_limit_reached := False\<rparr>)"
    by (simp add: HandleCmd_def StrSplit_eval SimpleAtoi_eval DispatchCmd_def toy_cmd_handlers
          toy_reading_cmd_handlers HandlePonder_def CheckArgsRange_def CheckArgsExact_def
          toy_env_fields)
  from reads tick time show ?thesis by (simp add: toy_reading_fields)
qed

end
